theory Spec2Isabelle
  imports Main "HOL-Library.Sublist"
begin

section \<open>The resource table of the cluster store (store/resources.go)\<close>

text \<open>
  The file under study registers the table \<^verbatim>\<open>resource\<close> with the store: its
  indexes, the hooks Save, Restore and ApplyStoreAction, and the entry points
  CreateResource, UpdateResource, DeleteResource, GetResource and FindResources.
  Every function of the file is embedded below under its own name. The functions
  work through a transaction \<^verbatim>\<open>tx\<close>, whose primitive operations and whose
  state are defined in other files of package store.
\<close>

subsection \<open>Data\<close>

text \<open>
  The types of package api and the selectors and error values of package store are
  declared in files that are not among the sources; each is modelled below from the
  specification's data model and from the way resources.go uses it.
\<close>

text \<open>
  Modelled from the spec: \<^verbatim>\<open>api.Resource\<close>, the domain object with its semantic
  fields \<open>ID\<close>, \<open>Name\<close>, \<open>Kind\<close> and the custom index payload
  \<open>Indices\<close>, a list of (key, value) entries. A \<^verbatim>\<open>*api.Resource\<close> is taken
  to point to a resource (never nil).
\<close>

record Resource =
  ID :: string
  Name :: string
  Kind :: string
  Indices :: "(string \<times> string) list"

text \<open>\<^verbatim>\<open>type resourceEntry struct { *api.Resource }\<close>: the row stored in the table.\<close>

datatype resourceEntry = resourceEntry (Resource: Resource)

text \<open>
  Modelled from the spec: \<^verbatim>\<open>api.Extension\<close>, an entry of the extension/kind
  registry, as far as the kind check needs it: a named entry.
\<close>

record Extension =
  ExtensionName :: string

text \<open>
  Modelled from the spec: the selectors of package store (\<^verbatim>\<open>By\<close>). The file
  names the value \<^verbatim>\<open>All\<close> (match everything), the constructor \<^verbatim>\<open>ByName\<close> and
  the types \<^verbatim>\<open>byIDPrefix\<close>, \<^verbatim>\<open>byName\<close>, \<^verbatim>\<open>byKind\<close>, \<^verbatim>\<open>byCustom\<close> and
  \<^verbatim>\<open>byCustomPrefix\<close>; \<open>byOther\<close> stands for every further selector type of the
  package, told apart by its name. A custom selector carries the index name and the
  value looked for.
\<close>

datatype By =
    byAll
  | byIDPrefix string
  | byName string
  | byKind string
  | byCustom string string
  | byCustomPrefix string string
  | byOther string

abbreviation All_By :: By where
  "All_By \<equiv> byAll"

abbreviation ByName :: "string \<Rightarrow> By" where
  "ByName name \<equiv> byName name"

text \<open>
  Modelled from the spec: the error values. \<open>ErrExist\<close> (AlreadyExists),
  \<open>ErrNotExist\<close> (NotFound), \<open>ErrInvalidFindBy\<close> (InvalidQuery) and
  \<open>errUnknownStoreAction\<close> (UnknownAction) are the package's error values, named
  as the file and its comments name them; \<open>Errorf\<close> carries the formatted message
  of \<^verbatim>\<open>errors.Errorf\<close>, \<open>Wrap\<close> is \<^verbatim>\<open>errors.Wrap\<close>, and \<open>EngineError\<close> is
  an error of the storage engine, passed through.
\<close>

datatype error =
    ErrExist
  | ErrNotExist
  | ErrInvalidFindBy
  | errUnknownStoreAction
  | Errorf string
  | Wrap error string
  | EngineError string

text \<open>
  Modelled from the spec: \<^verbatim>\<open>api.StoreSnapshot\<close>, a container with one field per
  table, each an ordered sequence of objects. Only \<open>Resources\<close> belongs to this
  table; the other tables' fields are the record's extension.
\<close>

record StoreSnapshot =
  Resources :: "Resource list"

text \<open>
  Modelled from the spec: \<^verbatim>\<open>api.StoreAction\<close>, the mutation action envelope: an
  action kind and a target. \<open>StoreActionKindOther n\<close> is a value of the kind's
  integer type that is none of the three constants the file names, \<open>n\<close> telling
  such values apart; \<open>StoreAction_Other\<close> is a target of another table, named by
  its type, and \<open>NoTarget\<close> a nil target.
\<close>

datatype StoreActionKind =
    StoreActionKindCreate
  | StoreActionKindUpdate
  | StoreActionKindRemove
  | StoreActionKindOther int

datatype StoreAction_Target =
    StoreAction_Resource Resource
  | StoreAction_Other string
  | NoTarget

record StoreAction =
  Action :: StoreActionKind
  Target :: StoreAction_Target

subsection \<open>The transaction contract\<close>

text \<open>
  \<^verbatim>\<open>ReadTx\<close> and \<^verbatim>\<open>Tx\<close> are interfaces of package store; their implementation
  is not part of the file. They are taken as parameters: a transaction is the record
  of its operations, over a state \<open>'s\<close> that every writing operation returns
  updated, together with the error it reports (\<open>None\<close> for nil). \<open>tx_find\<close>
  returns the objects it hands to its callback, in order. \<^verbatim>\<open>FindExtensions\<close>, the
  query of the extension table (extensions.go), reads through the same transaction
  and is carried with it.
\<close>

record 's ReadTx =
  tx_get :: "string \<Rightarrow> string \<Rightarrow> 's \<Rightarrow> resourceEntry option"
  tx_find :: "string \<Rightarrow> By \<Rightarrow> (By \<Rightarrow> error option) \<Rightarrow> 's \<Rightarrow> resourceEntry list \<times> error option"
  FindExtensions :: "By \<Rightarrow> 's \<Rightarrow> Extension list \<times> error option"

record 's Tx = "'s ReadTx" +
  tx_create :: "string \<Rightarrow> resourceEntry \<Rightarrow> 's \<Rightarrow> error option \<times> 's"
  tx_update :: "string \<Rightarrow> resourceEntry \<Rightarrow> 's \<Rightarrow> error option \<times> 's"
  tx_delete :: "string \<Rightarrow> string \<Rightarrow> 's \<Rightarrow> error option \<times> 's"

subsection \<open>The functions of resources.go\<close>

definition tableResource :: string where
  "tableResource = ''resource''"

text \<open>\<^verbatim>\<open>errors.Errorf("object kind %s is unregistered", r.Kind)\<close>\<close>

definition KindUnregistered :: "string \<Rightarrow> error" where
  "KindUnregistered kind = Errorf (''object kind '' @ kind @ '' is unregistered'')"

definition confirmExtension :: "('s, 'a) Tx_scheme \<Rightarrow> Resource \<Rightarrow> 's \<Rightarrow> error option" where
  "confirmExtension tx r s =
     (case FindExtensions tx (ByName (Kind r)) s of
        (extensions, Some err) \<Rightarrow> Some (Wrap err ''failed to query extensions'')
      | (extensions, None) \<Rightarrow>
          if length extensions = 0 then Some (KindUnregistered (Kind r)) else None)"

definition CreateResource :: "('s, 'a) Tx_scheme \<Rightarrow> Resource \<Rightarrow> 's \<Rightarrow> error option \<times> 's" where
  "CreateResource tx r s =
     (case confirmExtension tx r s of
        Some err \<Rightarrow> (Some err, s)
      | None \<Rightarrow> tx_create tx tableResource (resourceEntry r) s)"

definition UpdateResource :: "('s, 'a) Tx_scheme \<Rightarrow> Resource \<Rightarrow> 's \<Rightarrow> error option \<times> 's" where
  "UpdateResource tx r s =
     (case confirmExtension tx r s of
        Some err \<Rightarrow> (Some err, s)
      | None \<Rightarrow> tx_update tx tableResource (resourceEntry r) s)"

definition DeleteResource :: "('s, 'a) Tx_scheme \<Rightarrow> string \<Rightarrow> 's \<Rightarrow> error option \<times> 's" where
  "DeleteResource tx id' s = tx_delete tx tableResource id' s"

definition GetResource :: "('s, 'a) ReadTx_scheme \<Rightarrow> string \<Rightarrow> 's \<Rightarrow> Resource option" where
  "GetResource tx id' s =
     (case tx_get tx tableResource id' s of
        None \<Rightarrow> None
      | Some r \<Rightarrow> Some (Resource r))"

text \<open>The two closures of FindResources.\<close>

fun checkType :: "By \<Rightarrow> error option" where
  "checkType (byIDPrefix _) = None"
| "checkType (byName _) = None"
| "checkType (byKind _) = None"
| "checkType (byCustom _ _) = None"
| "checkType (byCustomPrefix _ _) = None"
| "checkType _ = Some ErrInvalidFindBy"

definition appendResult :: "Resource list \<Rightarrow> resourceEntry \<Rightarrow> Resource list" where
  "appendResult resourceList obj = resourceList @ [Resource obj]"

definition FindResources :: "('s, 'a) ReadTx_scheme \<Rightarrow> By \<Rightarrow> 's \<Rightarrow> Resource list \<times> error option" where
  "FindResources tx by s =
     (case tx_find tx tableResource by checkType s of
        (objs, err) \<Rightarrow> (foldl appendResult [] objs, err))"

text \<open>The Save hook: the field is assigned the result of the query, with its error.\<close>

definition Save :: "('s, 'a) ReadTx_scheme \<Rightarrow> 'b StoreSnapshot_scheme \<Rightarrow> 's
    \<Rightarrow> 'b StoreSnapshot_scheme \<times> error option" where
  "Save tx snapshot s =
     (case FindResources tx All_By s of
        (resources, err) \<Rightarrow> (snapshot\<lparr>Resources := resources\<rparr>, err))"

text \<open>The two loops of the Restore hook, each returning at the first error.\<close>

fun deleteLoop :: "('s, 'a) Tx_scheme \<Rightarrow> Resource list \<Rightarrow> 's \<Rightarrow> error option \<times> 's" where
  "deleteLoop tx [] s = (None, s)"
| "deleteLoop tx (r # resources) s =
     (case DeleteResource tx (ID r) s of
        (Some err, s') \<Rightarrow> (Some err, s')
      | (None, s') \<Rightarrow> deleteLoop tx resources s')"

fun createLoop :: "('s, 'a) Tx_scheme \<Rightarrow> Resource list \<Rightarrow> 's \<Rightarrow> error option \<times> 's" where
  "createLoop tx [] s = (None, s)"
| "createLoop tx (r # resources) s =
     (case CreateResource tx r s of
        (Some err, s') \<Rightarrow> (Some err, s')
      | (None, s') \<Rightarrow> createLoop tx resources s')"

definition Restore :: "('s, 'a) Tx_scheme \<Rightarrow> 'b StoreSnapshot_scheme \<Rightarrow> 's \<Rightarrow> error option \<times> 's" where
  "Restore tx snapshot s =
     (case FindResources tx All_By s of
        (resources, Some err) \<Rightarrow> (Some err, s)
      | (resources, None) \<Rightarrow>
          (case deleteLoop tx resources s of
             (Some err, s') \<Rightarrow> (Some err, s')
           | (None, s') \<Rightarrow> createLoop tx (Resources snapshot) s'))"

text \<open>The ApplyStoreAction hook: a switch on the target's type, then on the kind.\<close>

definition ApplyStoreAction :: "('s, 'a) Tx_scheme \<Rightarrow> 'b StoreAction_scheme \<Rightarrow> 's \<Rightarrow> error option \<times> 's" where
  "ApplyStoreAction tx sa s =
     (case Target sa of
        StoreAction_Resource obj \<Rightarrow>
          (case Action sa of
             StoreActionKindCreate \<Rightarrow> CreateResource tx obj s
           | StoreActionKindUpdate \<Rightarrow> UpdateResource tx obj s
           | StoreActionKindRemove \<Rightarrow> DeleteResource tx (ID obj) s
           | StoreActionKindOther _ \<Rightarrow> (Some errUnknownStoreAction, s))
      | _ \<Rightarrow> (Some errUnknownStoreAction, s))"

text \<open>
  \<^verbatim>\<open>resourceIndexerByKind.FromObject\<close>: the key of a row in the kind index, the
  bytes of the Kind followed by the null byte. (\<^verbatim>\<open>FromArgs\<close> only forwards to
  \<^verbatim>\<open>fromArgs\<close> of another file and is not embedded.)
\<close>

definition FromObject :: "resourceEntry \<Rightarrow> bool \<times> string \<times> error option" where
  "FromObject obj = (let r = obj; val = Kind (Resource r) @ [CHR 0x00] in (True, val, None))"

subsection \<open>A transaction over a table of rows\<close>

text \<open>
  Modelled from the spec: the state behind the transaction (the storage engine is not
  among the sources): the rows of the resource table and the entries of the extension
  registry. The indexes of the table are functions of its rows (the rows by ID, by
  Name, by Kind, by custom entry), so the rows stand for the index entries too.
\<close>

record store =
  resource_rows :: "resourceEntry list"
  extension_rows :: "Extension list"

text \<open>
  The transaction \<open>memTx\<close> over this store supplies the primitive operations and
  the extension query that files outside the sources define. An operation on a table
  the store does not hold is an error of the engine.
\<close>

text \<open>
  Modelled from the spec: the unique ID index of the table (the transaction's lookup
  by ID, not among the sources): the row with the given ID, if any.
\<close>

definition lookupID :: "store \<Rightarrow> string \<Rightarrow> resourceEntry option" where
  "lookupID s id' = find (\<lambda>row. ID (Resource row) = id') (resource_rows s)"

text \<open>
  Modelled from the spec: the unique Name index (not among the sources): whether
  another row already holds the object's Name.
\<close>

definition nameTaken :: "store \<Rightarrow> resourceEntry \<Rightarrow> bool" where
  "nameTaken s obj =
     list_ex (\<lambda>row. Name (Resource row) = Name (Resource obj) \<and> ID (Resource row) \<noteq> ID (Resource obj))
       (resource_rows s)"

text \<open>
  Modelled from the spec: \<^verbatim>\<open>tx.create\<close> (not among the sources). It fails with
  AlreadyExists when the ID or the Name is present and inserts the row otherwise.
\<close>

definition mem_create :: "string \<Rightarrow> resourceEntry \<Rightarrow> store \<Rightarrow> error option \<times> store" where
  "mem_create table obj s =
     (if table = tableResource then
        (if lookupID s (ID (Resource obj)) = None \<and> \<not> nameTaken s obj
         then (None, s\<lparr>resource_rows := resource_rows s @ [obj]\<rparr>)
         else (Some ErrExist, s))
      else (Some (EngineError ''invalid table''), s))"

text \<open>
  Modelled from the spec: \<^verbatim>\<open>tx.update\<close> (not among the sources). It fails with
  NotFound when no row has the ID, fails when the new Name belongs to another row, and
  replaces the row otherwise.
\<close>

definition mem_update :: "string \<Rightarrow> resourceEntry \<Rightarrow> store \<Rightarrow> error option \<times> store" where
  "mem_update table obj s =
     (if table = tableResource then
        (case lookupID s (ID (Resource obj)) of
           None \<Rightarrow> (Some ErrNotExist, s)
         | Some old \<Rightarrow>
             if nameTaken s obj then (Some ErrExist, s)
             else (None, s\<lparr>resource_rows :=
                     map (\<lambda>row. if ID (Resource row) = ID (Resource obj) then obj else row)
                       (resource_rows s)\<rparr>))
      else (Some (EngineError ''invalid table''), s))"

text \<open>
  Modelled from the spec: \<^verbatim>\<open>tx.delete\<close> (not among the sources). It fails with
  NotFound when no row has the ID and removes the row otherwise.
\<close>

definition mem_delete :: "string \<Rightarrow> string \<Rightarrow> store \<Rightarrow> error option \<times> store" where
  "mem_delete table id' s =
     (if table = tableResource then
        (case lookupID s id' of
           None \<Rightarrow> (Some ErrNotExist, s)
         | Some old \<Rightarrow>
             (None, s\<lparr>resource_rows := filter (\<lambda>row. ID (Resource row) \<noteq> id') (resource_rows s)\<rparr>))
      else (Some (EngineError ''invalid table''), s))"

text \<open>
  Modelled from the spec: \<^verbatim>\<open>tx.get\<close> (not among the sources): the row or an
  absent result.
\<close>

definition mem_get :: "string \<Rightarrow> string \<Rightarrow> store \<Rightarrow> resourceEntry option" where
  "mem_get table id' s = (if table = tableResource then lookupID s id' else None)"

text \<open>
  Modelled from the spec: the query modes of Find (the index lookups are not among the
  sources): by ID prefix, by exact name, by exact kind, by exact custom entry, by
  custom entry prefix.
\<close>

fun selects :: "By \<Rightarrow> Resource \<Rightarrow> bool" where
  "selects byAll r = True"
| "selects (byIDPrefix p) r = prefix p (ID r)"
| "selects (byName n) r = (Name r = n)"
| "selects (byKind k) r = (Kind r = k)"
| "selects (byCustom i v) r = List.member (Indices r) (i, v)"
| "selects (byCustomPrefix i v) r = list_ex (\<lambda>entry. fst entry = i \<and> prefix v (snd entry)) (Indices r)"
| "selects (byOther _) r = False"

text \<open>
  Modelled from the spec: \<^verbatim>\<open>tx.find(table, selector, typeGuard, collect)\<close> (not
  among the sources). The match-everything selector is served without the guard; any
  other selector is put to the guard first, and nothing is collected when the guard
  refuses it. The result lists the rows handed to \<open>collect\<close>.
\<close>

definition mem_find :: "string \<Rightarrow> By \<Rightarrow> (By \<Rightarrow> error option) \<Rightarrow> store
    \<Rightarrow> resourceEntry list \<times> error option" where
  "mem_find table by typeGuard s =
     (if table = tableResource then
        (case by of
           byAll \<Rightarrow> (resource_rows s, None)
         | _ \<Rightarrow>
             (case typeGuard by of
                Some err \<Rightarrow> ([], Some err)
              | None \<Rightarrow> (filter (\<lambda>row. selects by (Resource row)) (resource_rows s), None)))
      else ([], Some (EngineError ''invalid table'')))"

text \<open>
  Modelled from the spec: \<^verbatim>\<open>FindExtensions\<close> (extensions.go, not among the
  sources), the registry's query "find extensions by name", exact.
\<close>

definition mem_FindExtensions :: "By \<Rightarrow> store \<Rightarrow> Extension list \<times> error option" where
  "mem_FindExtensions by s =
     (case by of
        byName name \<Rightarrow> (filter (\<lambda>e. ExtensionName e = name) (extension_rows s), None)
      | byAll \<Rightarrow> (extension_rows s, None)
      | _ \<Rightarrow> ([], Some ErrInvalidFindBy))"

text \<open>Modelled from the spec: the transaction made of the operations above.\<close>

definition memTx :: "store Tx" where
  "memTx = \<lparr>tx_get = mem_get, tx_find = mem_find, FindExtensions = mem_FindExtensions,
            tx_create = mem_create, tx_update = mem_update, tx_delete = mem_delete\<rparr>"

subsection \<open>Running operations in order up to the first error\<close>

text \<open>
  The specification's reading of Restore: a sequence of per-row operations, run in
  order on the transaction; the first operation that reports an error ends the run,
  with that error and the state the operation left.
\<close>

fun run_ops :: "('s \<Rightarrow> error option \<times> 's) list \<Rightarrow> 's \<Rightarrow> error option \<times> 's" where
  "run_ops [] s = (None, s)"
| "run_ops (f # fs) s =
     (case f s of
        (Some err, s') \<Rightarrow> (Some err, s')
      | (None, s') \<Rightarrow> run_ops fs s')"

definition restore_ops :: "('s, 'a) Tx_scheme \<Rightarrow> Resource list \<Rightarrow> Resource list
    \<Rightarrow> ('s \<Rightarrow> error option \<times> 's) list" where
  "restore_ops tx stored snap =
     map (\<lambda>r. DeleteResource tx (ID r)) stored @ map (\<lambda>r. CreateResource tx r) snap"

text \<open>Sample data for the worked examples.\<close>

definition r1 :: Resource where
  "r1 = \<lparr>ID = ''r1'', Name = ''vol-a'', Kind = ''volume'', Indices = []\<rparr>"

definition r2 :: Resource where
  "r2 = \<lparr>ID = ''r2'', Name = ''vol-b'', Kind = ''volume'', Indices = []\<rparr>"

definition r3 :: Resource where
  "r3 = \<lparr>ID = ''r3'', Name = ''net-a'', Kind = ''network'', Indices = []\<rparr>"

definition volumes :: store where
  "volumes = \<lparr>resource_rows = [resourceEntry r1], extension_rows = [\<lparr>ExtensionName = ''volume''\<rparr>]\<rparr>"

text \<open>Resources whose kinds share leading bytes, one of them with a null byte inside.\<close>

definition kindA :: Resource where
  "kindA = \<lparr>ID = ''k1'', Name = ''first'', Kind = ''a'', Indices = []\<rparr>"

definition kindA0B :: Resource where
  "kindA0B = \<lparr>ID = ''k2'', Name = ''second'', Kind = ''a'' @ [CHR 0x00] @ ''b'', Indices = []\<rparr>"

definition kindAB :: Resource where
  "kindAB = \<lparr>ID = ''k3'', Name = ''third'', Kind = ''ab'', Indices = []\<rparr>"

section \<open>Properties\<close>

subsection \<open>Auxiliary facts\<close>

lemma foldl_appendResult: "foldl appendResult acc objs = acc @ map Resource objs"
  by (induction objs arbitrary: acc) (simp_all add: appendResult_def)

lemma deleteLoop_run_ops: "deleteLoop tx rs s = run_ops (map (\<lambda>r. DeleteResource tx (ID r)) rs) s"
  by (induction rs arbitrary: s) (auto split: prod.splits option.splits)

lemma createLoop_run_ops: "createLoop tx rs s = run_ops (map (\<lambda>r. CreateResource tx r) rs) s"
  by (induction rs arbitrary: s) (auto split: prod.splits option.splits)

lemma run_ops_append:
  "run_ops (fs @ gs) s =
     (case run_ops fs s of (Some err, s') \<Rightarrow> (Some err, s') | (None, s') \<Rightarrow> run_ops gs s')"
  by (induction fs arbitrary: s) (auto split: prod.splits option.splits)

lemma run_ops_error:
  "run_ops fs s = (Some e, s') \<Longrightarrow>
     \<exists>k<length fs. \<exists>sk. run_ops (take k fs) s = (None, sk) \<and> (fs ! k) sk = (Some e, s')"
proof (induction fs arbitrary: s)
  case Nil
  then show ?case by simp
next
  case (Cons f fs)
  show ?case
  proof (cases "f s")
    case (Pair r t)
    show ?thesis
    proof (cases r)
      case None
      with Pair Cons.prems have "run_ops fs t = (Some e, s')" by simp
      from Cons.IH[OF this] obtain k sk where
        k: "k < length fs" "run_ops (take k fs) t = (None, sk)" "(fs ! k) sk = (Some e, s')"
        by blast
      have "Suc k < length (f # fs)" using k(1) by simp
      moreover have "run_ops (take (Suc k) (f # fs)) s = (None, sk)"
        using k(2) Pair None by simp
      moreover have "((f # fs) ! Suc k) sk = (Some e, s')" using k(3) by simp
      ultimately show ?thesis by blast
    next
      case (Some e')
      with Pair Cons.prems have "f s = (Some e, s')" by simp
      then have "run_ops (take 0 (f # fs)) s = (None, s) \<and> ((f # fs) ! 0) s = (Some e, s')"
        by simp
      then show ?thesis by (metis length_Cons zero_less_Suc)
    qed
  qed
qed

lemma run_ops_ok:
  "run_ops fs s = (None, s') \<Longrightarrow> k < length fs \<Longrightarrow>
     \<exists>sk sk'. run_ops (take k fs) s = (None, sk) \<and> (fs ! k) sk = (None, sk')"
proof (induction fs arbitrary: s k)
  case Nil
  then show ?case by simp
next
  case (Cons f fs)
  from Cons.prems(1) obtain t where t: "f s = (None, t)" "run_ops fs t = (None, s')"
    by (auto split: prod.splits option.splits)
  show ?case
  proof (cases k)
    case 0
    then show ?thesis using t by simp
  next
    case (Suc j)
    with Cons.prems(2) have "j < length fs" by simp
    from Cons.IH[OF t(2) this] show ?thesis using t(1) Suc by simp
  qed
qed


lemma FindResources_eq:
  "FindResources tx by s =
     (map Resource (fst (tx_find tx tableResource by checkType s)),
      snd (tx_find tx tableResource by checkType s))"
  by (simp add: FindResources_def foldl_appendResult split: prod.splits)

lemma Restore_run_ops:
  "FindResources tx All_By s = (stored, None) \<Longrightarrow>
     Restore tx snapshot s = run_ops (restore_ops tx stored (Resources snapshot)) s"
  by (simp add: Restore_def restore_ops_def run_ops_append deleteLoop_run_ops createLoop_run_ops
      split: prod.splits option.splits)

lemma CreateResource_ok_checked:
  "CreateResource tx r s = (None, s') \<Longrightarrow> confirmExtension tx r s = None"
  by (auto simp: CreateResource_def split: option.splits)

lemma confirmExtension_tx_create [simp]:
  "confirmExtension (tx\<lparr>tx_create := c\<rparr>) r s = confirmExtension tx r s"
  by (simp add: confirmExtension_def)

lemma confirmExtension_tx_update [simp]:
  "confirmExtension (tx\<lparr>tx_update := u\<rparr>) r s = confirmExtension tx r s"
  by (simp add: confirmExtension_def)

lemma lookupID_None_iff:
  "lookupID s i = None \<longleftrightarrow> i \<notin> (\<lambda>row. ID (Resource row)) ` set (resource_rows s)"
  by (auto simp: lookupID_def find_None_iff)

lemma nameTaken_fresh:
  "Name (Resource obj) \<notin> (\<lambda>row. Name (Resource row)) ` set (resource_rows s) \<Longrightarrow> \<not> nameTaken s obj"
  by (auto simp: nameTaken_def list_ex_iff image_iff)

lemma confirmExtension_memTx:
  "confirmExtension memTx r s =
     (if Kind r \<in> ExtensionName ` set (extension_rows s) then None
      else Some (KindUnregistered (Kind r)))"
proof -
  have "(filter (\<lambda>e. ExtensionName e = Kind r) (extension_rows s) = []) \<longleftrightarrow>
      Kind r \<notin> ExtensionName ` set (extension_rows s)"
    by (force simp: filter_empty_conv)
  then show ?thesis
    by (simp add: confirmExtension_def memTx_def mem_FindExtensions_def)
qed

lemma find_snoc_fresh:
  "\<forall>x\<in>set xs. \<not> P x \<Longrightarrow> P y \<Longrightarrow> find P (xs @ [y]) = Some y"
  by (induction xs) simp_all

text \<open>The definitions unfolded when a worked example is evaluated.\<close>

lemmas mem_defs = memTx_def mem_get_def mem_find_def mem_FindExtensions_def mem_create_def
  mem_update_def mem_delete_def lookupID_def nameTaken_def tableResource_def

lemmas src_defs = CreateResource_def UpdateResource_def DeleteResource_def GetResource_def
  confirmExtension_def KindUnregistered_def

lemmas sample_defs = r1_def r2_def r3_def volumes_def

subsection \<open>Restore\<close>

text \<open>
  Claim C1. Restore queries all stored rows with the match-everything selector; when
  the query fails it returns that error with the transaction untouched. Otherwise it
  runs, in this order, one DeleteResource per stored row and then one CreateResource per
  row of \<open>snapshot.Resources\<close> (in snapshot order), up to the first error: when it
  returns an error, some operation \<open>k\<close> of that sequence reported it after all
  operations before it had succeeded, and the state is the one operation \<open>k\<close> left
  (no later row is processed); when it returns no error, every operation ran and
  succeeded. Every row is created through CreateResource, which succeeds only where the
  kind check \<open>confirmExtension\<close> passes.
\<close>

theorem Restore_deletes_then_creates:
  "(FindResources tx All_By s = (stored, Some err) \<longrightarrow> Restore tx snapshot s = (Some err, s)) \<and>
   (FindResources tx All_By s = (stored, None) \<longrightarrow>
      Restore tx snapshot s = run_ops (restore_ops tx stored (Resources snapshot)) s \<and>
      length (restore_ops tx stored (Resources snapshot)) = length stored + length (Resources snapshot) \<and>
      (\<forall>j<length stored.
         restore_ops tx stored (Resources snapshot) ! j = DeleteResource tx (ID (stored ! j))) \<and>
      (\<forall>k<length (Resources snapshot).
         restore_ops tx stored (Resources snapshot) ! (length stored + k) =
           CreateResource tx (Resources snapshot ! k)) \<and>
      (\<forall>e s'. Restore tx snapshot s = (Some e, s') \<longrightarrow>
         (\<exists>k<length (restore_ops tx stored (Resources snapshot)). \<exists>sk.
            run_ops (take k (restore_ops tx stored (Resources snapshot))) s = (None, sk) \<and>
            (restore_ops tx stored (Resources snapshot) ! k) sk = (Some e, s'))) \<and>
      (\<forall>s'. Restore tx snapshot s = (None, s') \<longrightarrow>
         (\<forall>k<length (restore_ops tx stored (Resources snapshot)). \<exists>sk sk'.
            run_ops (take k (restore_ops tx stored (Resources snapshot))) s = (None, sk) \<and>
            (restore_ops tx stored (Resources snapshot) ! k) sk = (None, sk')))) \<and>
   (\<forall>r sk sk'. CreateResource tx r sk = (None, sk') \<longrightarrow> confirmExtension tx r sk = None)"
proof (intro conjI impI allI)
  assume "FindResources tx All_By s = (stored, Some err)"
  then show "Restore tx snapshot s = (Some err, s)" by (simp add: Restore_def)
next
  assume "FindResources tx All_By s = (stored, None)"
  then show "Restore tx snapshot s = run_ops (restore_ops tx stored (Resources snapshot)) s"
    by (rule Restore_run_ops)
next
  show "length (restore_ops tx stored (Resources snapshot)) = length stored + length (Resources snapshot)"
    by (simp add: restore_ops_def)
next
  fix j assume "j < length stored"
  then show "restore_ops tx stored (Resources snapshot) ! j = DeleteResource tx (ID (stored ! j))"
    by (simp add: restore_ops_def nth_append)
next
  fix k assume "k < length (Resources snapshot)"
  then show "restore_ops tx stored (Resources snapshot) ! (length stored + k) =
      CreateResource tx (Resources snapshot ! k)"
    by (simp add: restore_ops_def nth_append)
next
  fix e s'
  assume "FindResources tx All_By s = (stored, None)" and "Restore tx snapshot s = (Some e, s')"
  then have "run_ops (restore_ops tx stored (Resources snapshot)) s = (Some e, s')"
    by (simp add: Restore_run_ops)
  then show "\<exists>k<length (restore_ops tx stored (Resources snapshot)). \<exists>sk.
            run_ops (take k (restore_ops tx stored (Resources snapshot))) s = (None, sk) \<and>
            (restore_ops tx stored (Resources snapshot) ! k) sk = (Some e, s')"
    by (rule run_ops_error)
next
  fix s' k
  assume "FindResources tx All_By s = (stored, None)" and "Restore tx snapshot s = (None, s')"
    and k: "k < length (restore_ops tx stored (Resources snapshot))"
  then have "run_ops (restore_ops tx stored (Resources snapshot)) s = (None, s')"
    by (simp add: Restore_run_ops)
  from run_ops_ok[OF this k]
  show "\<exists>sk sk'. run_ops (take k (restore_ops tx stored (Resources snapshot))) s = (None, sk) \<and>
            (restore_ops tx stored (Resources snapshot) ! k) sk = (None, sk')" .
next
  fix r sk sk'
  assume "CreateResource tx r sk = (None, sk')"
  then show "confirmExtension tx r sk = None" by (rule CreateResource_ok_checked)
qed

theorem Restore_deletes_then_creates_witness:
  "FindResources memTx All_By volumes = ([r1], None) \<and>
   Restore memTx \<lparr>Resources = [r2, r3, r1]\<rparr> volumes =
     (Some (KindUnregistered ''network''), volumes\<lparr>resource_rows := [resourceEntry r2]\<rparr>) \<and>
   Restore memTx \<lparr>Resources = [r2, r1]\<rparr> volumes =
     (None, volumes\<lparr>resource_rows := [resourceEntry r2, resourceEntry r1]\<rparr>)"
proof -
  have f: "FindResources memTx All_By volumes = ([r1], None)"
    by (simp add: FindResources_eq mem_defs sample_defs)
  have a: "Restore memTx \<lparr>Resources = [r2, r3, r1]\<rparr> volumes =
      run_ops (restore_ops memTx [r1] [r2, r3, r1]) volumes"
    using Restore_deletes_then_creates[of memTx volumes "[r1]" _ "\<lparr>Resources = [r2, r3, r1]\<rparr>"] f
    by simp
  have b: "Restore memTx \<lparr>Resources = [r2, r1]\<rparr> volumes =
      run_ops (restore_ops memTx [r1] [r2, r1]) volumes"
    using Restore_deletes_then_creates[of memTx volumes "[r1]" _ "\<lparr>Resources = [r2, r1]\<rparr>"] f
    by simp
  show ?thesis
    unfolding a b using f
    by (simp add: restore_ops_def src_defs mem_defs sample_defs)
qed

subsection \<open>ApplyStoreAction\<close>

text \<open>
  Claim C2. For an action whose target is a Resource, ApplyStoreAction with kind Create
  is CreateResource on the payload, with kind Update it is UpdateResource on the
  payload, and with kind Remove it is DeleteResource on the payload's ID: it returns
  that call's result and leaves the transaction as that call leaves it. For an action
  whose target is not a Resource it fails with \<open>errUnknownStoreAction\<close> and leaves
  the transaction untouched.
\<close>

theorem ApplyStoreAction_dispatch:
  "(Target sa = StoreAction_Resource obj \<longrightarrow>
      (Action sa = StoreActionKindCreate \<longrightarrow> ApplyStoreAction tx sa s = CreateResource tx obj s) \<and>
      (Action sa = StoreActionKindUpdate \<longrightarrow> ApplyStoreAction tx sa s = UpdateResource tx obj s) \<and>
      (Action sa = StoreActionKindRemove \<longrightarrow> ApplyStoreAction tx sa s = DeleteResource tx (ID obj) s)) \<and>
   ((\<forall>r. Target sa \<noteq> StoreAction_Resource r) \<longrightarrow>
      ApplyStoreAction tx sa s = (Some errUnknownStoreAction, s))"
  by (cases "Target sa") (simp_all add: ApplyStoreAction_def)

theorem ApplyStoreAction_dispatch_witness:
  "ApplyStoreAction memTx \<lparr>Action = StoreActionKindCreate, Target = StoreAction_Resource r2\<rparr> volumes =
     (None, volumes\<lparr>resource_rows := [resourceEntry r1, resourceEntry r2]\<rparr>) \<and>
   ApplyStoreAction memTx \<lparr>Action = StoreActionKindUpdate, Target = StoreAction_Resource r2\<rparr> volumes =
     (Some ErrNotExist, volumes) \<and>
   ApplyStoreAction memTx \<lparr>Action = StoreActionKindRemove, Target = StoreAction_Resource r1\<rparr> volumes =
     (None, volumes\<lparr>resource_rows := []\<rparr>) \<and>
   ApplyStoreAction memTx \<lparr>Action = StoreActionKindCreate, Target = StoreAction_Other ''node''\<rparr> volumes =
     (Some errUnknownStoreAction, volumes)"
  using
    ApplyStoreAction_dispatch[of "\<lparr>Action = StoreActionKindCreate, Target = StoreAction_Resource r2\<rparr>" r2 memTx volumes]
    ApplyStoreAction_dispatch[of "\<lparr>Action = StoreActionKindUpdate, Target = StoreAction_Resource r2\<rparr>" r2 memTx volumes]
    ApplyStoreAction_dispatch[of "\<lparr>Action = StoreActionKindRemove, Target = StoreAction_Resource r1\<rparr>" r1 memTx volumes]
    ApplyStoreAction_dispatch[of "\<lparr>Action = StoreActionKindCreate, Target = StoreAction_Other ''node''\<rparr>" r1 memTx volumes]
  by (simp add: src_defs mem_defs sample_defs)

text \<open>
  Claim C10. For an action whose target is a Resource and whose kind is none of
  Create, Update and Remove, ApplyStoreAction leaves the transaction untouched and
  fails with \<open>errUnknownStoreAction\<close>, exactly as it does for the same action with
  a target of another table or with no target.
\<close>

theorem ApplyStoreAction_unknown_kind:
  assumes "Target sa = StoreAction_Resource obj"
    and "Action sa \<notin> {StoreActionKindCreate, StoreActionKindUpdate, StoreActionKindRemove}"
  shows "ApplyStoreAction tx sa s = (Some errUnknownStoreAction, s) \<and>
         ApplyStoreAction tx sa s = ApplyStoreAction tx (sa\<lparr>Target := StoreAction_Other t\<rparr>) s \<and>
         ApplyStoreAction tx sa s = ApplyStoreAction tx (sa\<lparr>Target := NoTarget\<rparr>) s"
  using assms by (cases "Action sa") (simp_all add: ApplyStoreAction_def)

theorem ApplyStoreAction_unknown_kind_witness:
  "Target \<lparr>Action = StoreActionKindOther 0, Target = StoreAction_Resource r2\<rparr> = StoreAction_Resource r2 \<and>
   Action \<lparr>Action = StoreActionKindOther 0, Target = StoreAction_Resource r2\<rparr>
     \<notin> {StoreActionKindCreate, StoreActionKindUpdate, StoreActionKindRemove} \<and>
   ApplyStoreAction memTx \<lparr>Action = StoreActionKindOther 0, Target = StoreAction_Resource r2\<rparr> volumes =
     (Some errUnknownStoreAction, volumes)"
  using ApplyStoreAction_unknown_kind[of "\<lparr>Action = StoreActionKindOther 0, Target = StoreAction_Resource r2\<rparr>" r2 memTx volumes]
  by simp

subsection \<open>The kind check\<close>

text \<open>
  Claim C4. When the extension query for the resource's Kind returns no extension,
  CreateResource fails with the error "object kind ... is unregistered" and the
  transaction's state (rows and index entries) is the one before the call; the result
  is the same whatever the primitive \<open>tx_create\<close> is, so the primitive has no part
  in it.
\<close>

theorem CreateResource_unregistered_kind:
  assumes "FindExtensions tx (ByName (Kind r)) s = ([], None)"
  shows "CreateResource tx r s = (Some (KindUnregistered (Kind r)), s) \<and>
         (\<forall>c. CreateResource (tx\<lparr>tx_create := c\<rparr>) r s = (Some (KindUnregistered (Kind r)), s))"
  using assms by (simp add: CreateResource_def confirmExtension_def)

theorem CreateResource_unregistered_kind_witness:
  "FindExtensions memTx (ByName (Kind r3)) volumes = ([], None) \<and>
   CreateResource memTx r3 volumes = (Some (Errorf ''object kind network is unregistered''), volumes) \<and>
   resource_rows (snd (CreateResource memTx r3 volumes)) = [resourceEntry r1]"
proof -
  have h: "FindExtensions memTx (ByName (Kind r3)) volumes = ([], None)"
    by (simp add: mem_defs sample_defs)
  show ?thesis
    using h CreateResource_unregistered_kind[OF h]
    by (simp add: KindUnregistered_def) (simp add: sample_defs)
qed

text \<open>
  Claim C5. The kind check queries the extensions by the exact name \<open>Kind\<close>: no match
  is the error KindUnregistered, one match or more is success (and an error of the
  query itself is returned wrapped). CreateResource and UpdateResource run the check
  first: when it fails they return its error with the state untouched, whatever the
  storage primitive is, and only when it passes do they call the primitive.
  DeleteResource is the primitive delete alone, and its result does not depend on the
  extension query.
\<close>

theorem kind_check_on_create_and_update_only:
  "(FindExtensions tx (ByName (Kind r)) s = ([], None) \<longrightarrow>
      confirmExtension tx r s = Some (KindUnregistered (Kind r))) \<and>
   (FindExtensions tx (ByName (Kind r)) s = (extensions, None) \<and> extensions \<noteq> [] \<longrightarrow>
      confirmExtension tx r s = None) \<and>
   (FindExtensions tx (ByName (Kind r)) s = (extensions, Some qerr) \<longrightarrow>
      confirmExtension tx r s = Some (Wrap qerr ''failed to query extensions'')) \<and>
   (confirmExtension tx r s = Some err \<longrightarrow>
      CreateResource (tx\<lparr>tx_create := c\<rparr>) r s = (Some err, s) \<and>
      UpdateResource (tx\<lparr>tx_update := u\<rparr>) r s = (Some err, s)) \<and>
   (confirmExtension tx r s = None \<longrightarrow>
      CreateResource tx r s = tx_create tx tableResource (resourceEntry r) s \<and>
      UpdateResource tx r s = tx_update tx tableResource (resourceEntry r) s) \<and>
   DeleteResource tx id' s = tx_delete tx tableResource id' s \<and>
   DeleteResource (tx\<lparr>FindExtensions := f\<rparr>) id' s = DeleteResource tx id' s"
  by (simp add: CreateResource_def UpdateResource_def DeleteResource_def)
     (auto simp: confirmExtension_def)

theorem kind_check_on_create_and_update_only_witness:
  "confirmExtension memTx r3 volumes = Some (KindUnregistered ''network'') \<and>
   confirmExtension memTx r2 volumes = None \<and>
   CreateResource memTx r3 volumes = (Some (KindUnregistered ''network''), volumes) \<and>
   UpdateResource memTx r3 volumes = (Some (KindUnregistered ''network''), volumes) \<and>
   CreateResource memTx r2 volumes = mem_create tableResource (resourceEntry r2) volumes \<and>
   DeleteResource (memTx\<lparr>FindExtensions := \<lambda>by s. ([], None)\<rparr>) ''r1'' volumes =
     (None, volumes\<lparr>resource_rows := []\<rparr>)"
proof -
  have a: "FindExtensions memTx (ByName (Kind r3)) volumes = ([], None)"
    by (simp add: mem_defs sample_defs)
  have b: "FindExtensions memTx (ByName (Kind r2)) volumes = ([\<lparr>ExtensionName = ''volume''\<rparr>], None)"
    by (simp add: mem_defs sample_defs)
  have k3: "Kind r3 = ''network''" by (simp add: r3_def)
  note t3 = kind_check_on_create_and_update_only[of memTx r3 volumes "[]" _ _
      "tx_create memTx" "tx_update memTx" "''r1''" "\<lambda>by s. ([], None)"]
  note t2 = kind_check_on_create_and_update_only[of memTx r2 volumes "[\<lparr>ExtensionName = ''volume''\<rparr>]" _ _
      "tx_create memTx" "tx_update memTx" "''r1''" "\<lambda>by s. ([], None)"]
  have c3: "confirmExtension memTx r3 volumes = Some (KindUnregistered ''network'')"
    using t3 a k3 by simp
  have c2: "confirmExtension memTx r2 volumes = None"
    using t2 b by simp
  have "CreateResource memTx r3 volumes = (Some (KindUnregistered ''network''), volumes)"
    and "UpdateResource memTx r3 volumes = (Some (KindUnregistered ''network''), volumes)"
    using kind_check_on_create_and_update_only[of memTx r3 volumes "[]" _ "KindUnregistered ''network''"
      "tx_create memTx" "tx_update memTx" "''r1''" "\<lambda>by s. ([], None)"] c3
    by simp_all
  moreover have "CreateResource memTx r2 volumes = mem_create tableResource (resourceEntry r2) volumes"
    using t2 c2 by (simp add: memTx_def)
  moreover have "DeleteResource (memTx\<lparr>FindExtensions := \<lambda>by s. ([], None)\<rparr>) ''r1'' volumes =
     (None, volumes\<lparr>resource_rows := []\<rparr>)"
    using t3 by (simp add: mem_defs sample_defs)
  ultimately show ?thesis using c3 c2 by simp
qed

subsection \<open>Create, Get and Update on the table\<close>

text \<open>
  Claim C3. On the store modelled from the specification: when the resource's Kind is
  the name of a registered extension and neither its ID nor its Name is present in the
  table, CreateResource succeeds and appends the row; GetResource with the same ID then
  returns the resource created; and a second CreateResource of that resource, or of
  any resource of a registered kind with the same ID, fails with \<open>ErrExist\<close> and
  leaves the table as it is.
\<close>

theorem Create_then_Get:
  assumes "Kind r \<in> ExtensionName ` set (extension_rows s)"
    and "ID r \<notin> (\<lambda>row. ID (Resource row)) ` set (resource_rows s)"
    and "Name r \<notin> (\<lambda>row. Name (Resource row)) ` set (resource_rows s)"
  shows "\<exists>s'. CreateResource memTx r s = (None, s') \<and>
           resource_rows s' = resource_rows s @ [resourceEntry r] \<and>
           GetResource memTx (ID r) s' = Some r \<and>
           CreateResource memTx r s' = (Some ErrExist, s') \<and>
           (\<forall>r'. ID r' = ID r \<and> Kind r' \<in> ExtensionName ` set (extension_rows s) \<longrightarrow>
              CreateResource memTx r' s' = (Some ErrExist, s'))"
proof -
  let ?s' = "s\<lparr>resource_rows := resource_rows s @ [resourceEntry r]\<rparr>"
  have fresh: "lookupID s (ID r) = None"
    using assms(2) by (simp add: lookupID_None_iff)
  have free: "\<not> nameTaken s (resourceEntry r)"
    using assms(3) by (simp add: nameTaken_fresh)
  have checked: "confirmExtension memTx r s = None"
    using assms(1) by (simp add: confirmExtension_memTx)
  have "tx_create memTx tableResource (resourceEntry r) s = (None, ?s')"
    using fresh free by (simp add: memTx_def mem_create_def)
  with checked have created: "CreateResource memTx r s = (None, ?s')"
    by (simp add: CreateResource_def)
  have "\<forall>row\<in>set (resource_rows s). \<not> ID (Resource row) = ID r"
    using assms(2) by (auto simp: image_iff)
  then have found: "lookupID ?s' (ID r) = Some (resourceEntry r)"
    by (simp add: lookupID_def find_snoc_fresh)
  then have got: "GetResource memTx (ID r) ?s' = Some r"
    by (simp add: GetResource_def memTx_def mem_get_def)
  have again: "CreateResource memTx r' ?s' = (Some ErrExist, ?s')"
    if "ID r' = ID r" and "Kind r' \<in> ExtensionName ` set (extension_rows s)" for r'
  proof -
    have "confirmExtension memTx r' ?s' = None"
      using that(2) by (simp add: confirmExtension_memTx)
    moreover have "tx_create memTx tableResource (resourceEntry r') ?s' = (Some ErrExist, ?s')"
      using that(1) found by (simp add: memTx_def mem_create_def)
    ultimately show ?thesis by (simp add: CreateResource_def)
  qed
  have "CreateResource memTx r s = (None, ?s') \<and>
        resource_rows ?s' = resource_rows s @ [resourceEntry r] \<and>
        GetResource memTx (ID r) ?s' = Some r \<and>
        CreateResource memTx r ?s' = (Some ErrExist, ?s') \<and>
        (\<forall>r'. ID r' = ID r \<and> Kind r' \<in> ExtensionName ` set (extension_rows s) \<longrightarrow>
           CreateResource memTx r' ?s' = (Some ErrExist, ?s'))"
    using created got again[of r] again assms(1) by simp
  then show ?thesis by blast
qed

theorem Create_then_Get_witness:
  "Kind r2 \<in> ExtensionName ` set (extension_rows volumes) \<and>
   ID r2 \<notin> (\<lambda>row. ID (Resource row)) ` set (resource_rows volumes) \<and>
   Name r2 \<notin> (\<lambda>row. Name (Resource row)) ` set (resource_rows volumes) \<and>
   (\<exists>s'. CreateResource memTx r2 volumes = (None, s') \<and>
         resource_rows s' = [resourceEntry r1, resourceEntry r2] \<and>
         GetResource memTx ''r2'' s' = Some r2 \<and>
         CreateResource memTx r2 s' = (Some ErrExist, s'))"
proof -
  have a: "Kind r2 \<in> ExtensionName ` set (extension_rows volumes)"
    and b: "ID r2 \<notin> (\<lambda>row. ID (Resource row)) ` set (resource_rows volumes)"
    and c: "Name r2 \<notin> (\<lambda>row. Name (Resource row)) ` set (resource_rows volumes)"
    by (simp_all add: sample_defs)
  have i: "ID r2 = ''r2''" by (simp add: r2_def)
  have v: "resource_rows volumes = [resourceEntry r1]"
    by (simp add: volumes_def)
  from Create_then_Get[OF a b c] obtain s' where
    "CreateResource memTx r2 volumes = (None, s')"
    "resource_rows s' = resource_rows volumes @ [resourceEntry r2]"
    "GetResource memTx (ID r2) s' = Some r2"
    "CreateResource memTx r2 s' = (Some ErrExist, s')"
    by blast
  then have "CreateResource memTx r2 volumes = (None, s') \<and>
         resource_rows s' = [resourceEntry r1, resourceEntry r2] \<and>
         GetResource memTx ''r2'' s' = Some r2 \<and>
         CreateResource memTx r2 s' = (Some ErrExist, s')"
    by (simp add: i v)
  then have "\<exists>s'. CreateResource memTx r2 volumes = (None, s') \<and>
         resource_rows s' = [resourceEntry r1, resourceEntry r2] \<and>
         GetResource memTx ''r2'' s' = Some r2 \<and>
         CreateResource memTx r2 s' = (Some ErrExist, s')"
    by blast
  with a b c show ?thesis by blast
qed

text \<open>
  Claim C8, as amended. On the store modelled from the specification: when no row has
  the resource's ID, UpdateResource fails and leaves the store unchanged; the error is
  \<open>ErrNotExist\<close> when the resource's Kind is the name of a registered extension,
  and KindUnregistered otherwise, since the kind check precedes the update.
\<close>

theorem UpdateResource_absent_ID:
  assumes "ID r \<notin> (\<lambda>row. ID (Resource row)) ` set (resource_rows s)"
  shows "(Kind r \<in> ExtensionName ` set (extension_rows s) \<longrightarrow>
            UpdateResource memTx r s = (Some ErrNotExist, s)) \<and>
         (Kind r \<notin> ExtensionName ` set (extension_rows s) \<longrightarrow>
            UpdateResource memTx r s = (Some (KindUnregistered (Kind r)), s)) \<and>
         fst (UpdateResource memTx r s) \<noteq> None \<and>
         snd (UpdateResource memTx r s) = s"
proof -
  from assms have "lookupID s (ID r) = None" by (simp add: lookupID_None_iff)
  then have "tx_update memTx tableResource (resourceEntry r) s = (Some ErrNotExist, s)"
    by (simp add: memTx_def mem_update_def)
  then show ?thesis
    by (simp add: UpdateResource_def confirmExtension_memTx)
qed

theorem UpdateResource_absent_ID_witness:
  "ID r2 \<notin> (\<lambda>row. ID (Resource row)) ` set (resource_rows volumes) \<and>
   Kind r2 \<in> ExtensionName ` set (extension_rows volumes) \<and>
   UpdateResource memTx r2 volumes = (Some ErrNotExist, volumes)"
proof -
  have h: "ID r2 \<notin> (\<lambda>row. ID (Resource row)) ` set (resource_rows volumes)"
    by (simp add: sample_defs)
  have k: "Kind r2 \<in> ExtensionName ` set (extension_rows volumes)"
    by (simp add: sample_defs)
  show ?thesis using h k UpdateResource_absent_ID[OF h] by simp
qed

theorem UpdateResource_NotFound_counterexample:
  "ID r3 \<notin> (\<lambda>row. ID (Resource row)) ` set (resource_rows volumes) \<and>
   UpdateResource memTx r3 volumes = (Some (KindUnregistered ''network''), volumes) \<and>
   fst (UpdateResource memTx r3 volumes) \<noteq> Some ErrNotExist"
  by (simp add: src_defs mem_defs sample_defs)

subsection \<open>Save\<close>

text \<open>
  Claim C6, as amended. Save sets the snapshot's \<open>Resources\<close> field to the export
  of all rows that Find returns for the match-everything selector; what the field held
  before is replaced, the other fields of the snapshot are kept, and the error Save
  returns is exactly the error of that read.
\<close>

theorem Save_replaces_Resources:
  "Save tx snapshot s =
     (snapshot\<lparr>Resources := map Resource (fst (tx_find tx tableResource All_By checkType s))\<rparr>,
      snd (tx_find tx tableResource All_By checkType s)) \<and>
   Resources (fst (Save tx snapshot s)) = fst (FindResources tx All_By s) \<and>
   StoreSnapshot.more (fst (Save tx snapshot s)) = StoreSnapshot.more snapshot \<and>
   snd (Save tx snapshot s) = snd (FindResources tx All_By s)"
  by (simp add: Save_def FindResources_eq)

theorem Save_replaces_Resources_witness:
  "Save memTx \<lparr>Resources = [r2]\<rparr> volumes = (\<lparr>Resources = [r1]\<rparr>, None)"
  using Save_replaces_Resources[of memTx "\<lparr>Resources = [r2]\<rparr>" volumes]
  by (simp add: mem_defs sample_defs)

theorem Save_appends_counterexample:
  "Resources (fst (Save memTx \<lparr>Resources = [r2]\<rparr> volumes)) = [r1] \<and>
   r2 \<notin> set (Resources (fst (Save memTx \<lparr>Resources = [r2]\<rparr> volumes))) \<and>
   Resources (fst (Save memTx \<lparr>Resources = [r2]\<rparr> volumes)) \<noteq>
     [r2] @ fst (FindResources memTx All_By volumes)"
  by (simp add: Save_def FindResources_eq mem_defs sample_defs)

subsection \<open>Find\<close>

text \<open>
  Claim C7, as amended. The type guard that FindResources hands to the transaction
  accepts exactly the selectors by ID prefix, by name, by kind, by custom entry and by
  custom entry prefix, and answers \<open>ErrInvalidFindBy\<close> for every other selector;
  FindResources returns what the transaction's find gives under that guard. On the
  store modelled from the specification, an accepted selector yields the matching rows
  without error, the match-everything selector yields all rows without error (the
  transaction serves it without asking the guard), and every other selector fails with
  \<open>ErrInvalidFindBy\<close> and an empty result.
\<close>

theorem FindResources_selectors:
  "(checkType by = None \<longleftrightarrow>
      (\<exists>p. by = byIDPrefix p) \<or> (\<exists>n. by = byName n) \<or> (\<exists>k. by = byKind k) \<or>
      (\<exists>i v. by = byCustom i v) \<or> (\<exists>i v. by = byCustomPrefix i v)) \<and>
   (checkType by = None \<or> checkType by = Some ErrInvalidFindBy) \<and>
   FindResources tx by s =
     (map Resource (fst (tx_find tx tableResource by checkType s)),
      snd (tx_find tx tableResource by checkType s)) \<and>
   (checkType by = None \<longrightarrow>
      FindResources memTx by st =
        (map Resource (filter (\<lambda>row. selects by (Resource row)) (resource_rows st)), None)) \<and>
   FindResources memTx All_By st = (map Resource (resource_rows st), None) \<and>
   (checkType by = Some ErrInvalidFindBy \<and> by \<noteq> All_By \<longrightarrow>
      FindResources memTx by st = ([], Some ErrInvalidFindBy))"
  by (cases "by") (simp_all add: FindResources_eq memTx_def mem_find_def tableResource_def)

theorem FindResources_selectors_witness:
  "checkType (byKind ''volume'') = None \<and>
   FindResources memTx (byKind ''volume'') volumes = ([r1], None) \<and>
   FindResources memTx (byIDPrefix ''x'') volumes = ([], None) \<and>
   checkType (byOther ''byNode'') = Some ErrInvalidFindBy \<and>
   FindResources memTx (byOther ''byNode'') volumes = ([], Some ErrInvalidFindBy)"
proof -
  note accepted = FindResources_selectors[THEN conjunct2, THEN conjunct2, THEN conjunct2,
      THEN conjunct1, rule_format]
  note refused = FindResources_selectors[THEN conjunct2, THEN conjunct2, THEN conjunct2,
      THEN conjunct2, THEN conjunct2, rule_format]
  have "FindResources memTx (byKind ''volume'') volumes = ([r1], None)"
    using accepted[of "byKind ''volume''" volumes] by (simp add: sample_defs)
  moreover have "FindResources memTx (byIDPrefix ''x'') volumes = ([], None)"
    using accepted[of "byIDPrefix ''x''" volumes] by (simp add: sample_defs)
  moreover have "FindResources memTx (byOther ''byNode'') volumes = ([], Some ErrInvalidFindBy)"
    using refused[of "byOther ''byNode''" volumes] by simp
  ultimately show ?thesis by simp
qed

theorem FindResources_All_counterexample:
  "checkType All_By = Some ErrInvalidFindBy \<and>
   FindResources memTx All_By volumes = ([r1], None)"
  by (simp add: FindResources_eq mem_defs sample_defs)

subsection \<open>The kind index\<close>

text \<open>
  Claim C9, as amended. The kind indexer always answers with the key made of the bytes
  of the object's Kind followed by one null byte. The key of a kind is a prefix of the
  key of another kind exactly when the two kinds are equal or the other kind continues
  the first with a null byte; so a prefix match on a kind key cannot match a different
  kind that has no null byte in it, however many leading bytes the two share.
\<close>

theorem kind_key_terminated:
  "FromObject (resourceEntry r) = (True, Kind r @ [CHR 0x00], None) \<and>
   (prefix (fst (snd (FromObject (resourceEntry r)))) (fst (snd (FromObject (resourceEntry r')))) \<longleftrightarrow>
      Kind r = Kind r' \<or> prefix (Kind r @ [CHR 0x00]) (Kind r')) \<and>
   (CHR 0x00 \<notin> set (Kind r') \<longrightarrow>
      prefix (fst (snd (FromObject (resourceEntry r)))) (fst (snd (FromObject (resourceEntry r')))) \<longrightarrow>
      Kind r = Kind r')"
proof -
  have key: "FromObject (resourceEntry x) = (True, Kind x @ [CHR 0x00], None)" for x
    by (simp add: FromObject_def)
  have iff: "prefix (Kind r @ [CHR 0x00]) (Kind r' @ [CHR 0x00]) \<longleftrightarrow>
      Kind r = Kind r' \<or> prefix (Kind r @ [CHR 0x00]) (Kind r')"
    by auto
  have "CHR 0x00 \<in> set (Kind r')" if "prefix (Kind r @ [CHR 0x00]) (Kind r')"
    using set_mono_prefix[OF that] by auto
  with iff show ?thesis by (auto simp: key)
qed

theorem kind_key_terminated_witness:
  "CHR 0x00 \<notin> set (Kind kindAB) \<and>
   \<not> prefix (fst (snd (FromObject (resourceEntry kindA)))) (fst (snd (FromObject (resourceEntry kindAB)))) \<and>
   prefix (Kind kindA) (Kind kindAB) \<and>
   FromObject (resourceEntry kindAB) = (True, [CHR ''a'', CHR ''b'', CHR 0x00], None)"
  using kind_key_terminated[of kindA kindAB] kind_key_terminated[of kindAB kindAB]
  by (simp add: kindA_def kindAB_def)

theorem kind_key_prefix_counterexample:
  "prefix (Kind kindA) (Kind kindA0B) \<and> length (Kind kindA) < length (Kind kindA0B) \<and>
   prefix (fst (snd (FromObject (resourceEntry kindA)))) (fst (snd (FromObject (resourceEntry kindA0B))))"
  by (simp add: FromObject_def kindA_def kindA0B_def)

end
